theory Spec2Isabelle
  imports Complex_Main "HOL-Library.Sublist"
begin

section \<open>Request data\<close>

text \<open>
  \<^verbatim>\<open>app.use(express.json())\<close> parses the request body, so a handler reads JavaScript
  values out of \<^verbatim>\<open>req.body\<close>. A key that the JSON object does not carry reads as
  \<^verbatim>\<open>undefined\<close>. A number is a double; the model keeps its value as a rational, which
  is enough for the only test the handlers make on it, the test against zero.
\<close>

datatype jsval =
    JUndefined
  | JNull
  | JBool bool
  | JNum rat
  | JStr string
  | JArr "jsval list"
  | JObj "(string \<times> jsval) list"

text \<open>JavaScript truthiness: what \<^verbatim>\<open>!x\<close> negates.\<close>

fun truthy :: "jsval \<Rightarrow> bool" where
  "truthy JUndefined = False"
| "truthy JNull = False"
| "truthy (JBool b) = b"
| "truthy (JNum n) = (n \<noteq> 0)"
| "truthy (JStr s) = (s \<noteq> [])"
| "truthy (JArr xs) = True"
| "truthy (JObj kvs) = True"

text \<open>
  The three keys that \<^verbatim>\<open>const { name, email, dateOfBirth } = req.body\<close> takes out of
  the body, which \<^verbatim>\<open>express.json()\<close> leaves an object. Any other key of the body is
  never read.
\<close>

record body =
  req_name :: jsval
  req_email :: jsval
  req_dateOfBirth :: jsval

section \<open>The storage library\<close>

text \<open>
  The handlers call Mongoose, which is not part of the repository. What the handlers
  need from it is modelled here, with the indexes that the schema declares built. Three
  conversions depend on the library version and on
  JavaScript's date and number formatting; they are parameters of the model, so that
  every theorem below holds for each choice of them:
  \<^item> \<open>castObjectId\<close>: the \<^verbatim>\<open>ObjectId\<close> an identifier string denotes, if it denotes one.
    \<^verbatim>\<open>ObjectId.isValid(id)\<close> answers whether the constructor accepts \<^verbatim>\<open>id\<close>, and a
    query by \<^verbatim>\<open>_id\<close> casts its argument with the same constructor;
  \<^item> \<open>castString\<close>: the cast of a value that is neither a string nor null to the schema
    type \<^verbatim>\<open>String\<close>;
  \<^item> \<open>castDate\<close>: the cast of a value that is not null to the schema type \<^verbatim>\<open>Date\<close>.
\<close>

record ('i, 'd) mongoose =
  castObjectId :: "string \<Rightarrow> 'i option"
  castString :: "jsval \<Rightarrow> string option"
  castDate :: "jsval \<Rightarrow> 'd option"

definition isValid :: "('i, 'd) mongoose \<Rightarrow> string \<Rightarrow> bool" where
  "isValid lib ident = (castObjectId lib ident \<noteq> None)"

text \<open>
  A stored document of the model \<^verbatim>\<open>User\<close>, with the paths of \<^verbatim>\<open>userSchema\<close> and the
  \<^verbatim>\<open>_id\<close> that every document has, here \<open>oid\<close>.
\<close>

record ('i, 'd) user =
  oid :: 'i
  name :: string
  email :: string
  dateOfBirth :: 'd

text \<open>The collection, in insertion order, which is the order \<^verbatim>\<open>User.find()\<close> returns.\<close>

type_synonym ('i, 'd) collection = "('i, 'd) user list"

text \<open>
  What a rejected promise of the library carries. The last is the error of a call that
  reaches the database when the database does not answer.
\<close>

datatype storage_error = CastError | ValidationError | DuplicateKey | StorageFailure

text \<open>
  \<^verbatim>\<open>mongoose.connect(process.env.MONGO_URI)\<close> establishes the connection or fails;
  the server logs which and runs in both cases. Without a connection a call that has
  passed the library's own checks never gets an answer of the database, and its promise
  is rejected.
\<close>

datatype connection = Connected | Disconnected

text \<open>The result of casting a value to the type of a schema path.\<close>

datatype 'a casted = Nullish | CastFailure | Val 'a

definition SchemaString_cast :: "('i, 'd) mongoose \<Rightarrow> jsval \<Rightarrow> string casted" where
  "SchemaString_cast lib v =
     (case v of
        JUndefined \<Rightarrow> Nullish
      | JNull \<Rightarrow> Nullish
      | JStr s \<Rightarrow> Val s
      | _ \<Rightarrow> (case castString lib v of None \<Rightarrow> CastFailure | Some s \<Rightarrow> Val s))"

definition SchemaDate_cast :: "('i, 'd) mongoose \<Rightarrow> jsval \<Rightarrow> 'd casted" where
  "SchemaDate_cast lib v =
     (case v of
        JUndefined \<Rightarrow> Nullish
      | JNull \<Rightarrow> Nullish
      | _ \<Rightarrow> (if v = JStr [] then Nullish
              else case castDate lib v of None \<Rightarrow> CastFailure | Some d \<Rightarrow> Val d))"

text \<open>
  \<^verbatim>\<open>new User({ name, email, dateOfBirth })\<close> casts each value to the type of its path
  and gives the document a generated \<^verbatim>\<open>_id\<close>. The generated identifier comes from the
  clock, a random value and a counter; the model takes it as an input \<open>g\<close>.
\<close>

record ('i, 'd) document =
  doc_id :: 'i
  doc_name :: "string casted"
  doc_email :: "string casted"
  doc_dateOfBirth :: "'d casted"

definition new_User :: "('i, 'd) mongoose \<Rightarrow> 'i \<Rightarrow> body \<Rightarrow> ('i, 'd) document" where
  "new_User lib g b =
     \<lparr>doc_id = g,
      doc_name = SchemaString_cast lib (req_name b),
      doc_email = SchemaString_cast lib (req_email b),
      doc_dateOfBirth = SchemaDate_cast lib (req_dateOfBirth b)\<rparr>"

text \<open>
  Validation of a document against \<^verbatim>\<open>userSchema\<close>: every path is \<^verbatim>\<open>required: true\<close>,
  a path whose cast failed is invalid, and a required string must not be empty.
\<close>

definition validate :: "('i, 'd) document \<Rightarrow> ('i, 'd) user option" where
  "validate doc =
     (case (doc_name doc, doc_email doc, doc_dateOfBirth doc) of
        (Val n, Val e, Val d) \<Rightarrow>
          if n \<noteq> [] \<and> e \<noteq> []
          then Some \<lparr>oid = doc_id doc, name = n, email = e, dateOfBirth = d\<rparr>
          else None
      | _ \<Rightarrow> None)"

text \<open>
  \<^verbatim>\<open>newUser.save()\<close>: validate, then insert. The insertion is refused with a
  duplicate-key error when a unique index already holds the key: the index on \<^verbatim>\<open>_id\<close>
  that every collection has, and the index on \<^verbatim>\<open>email\<close> that \<^verbatim>\<open>unique: true\<close> declares.
\<close>

definition save ::
  "connection \<Rightarrow> ('i, 'd) document \<Rightarrow> ('i, 'd) collection
     \<Rightarrow> storage_error + ('i, 'd) user \<times> ('i, 'd) collection"
where
  "save c doc db =
     (case validate doc of
        None \<Rightarrow> Inl ValidationError
      | Some u \<Rightarrow>
          if c = Disconnected then Inl StorageFailure
          else if oid u \<in> set (map oid db) \<or> email u \<in> set (map email db)
          then Inl DuplicateKey
          else Inr (u, db @ [u]))"

text \<open>\<^verbatim>\<open>User.find()\<close> with no filter: every document.\<close>

definition find_all ::
  "connection \<Rightarrow> ('i, 'd) collection \<Rightarrow> storage_error + ('i, 'd) user list"
where
  "find_all c db = (if c = Disconnected then Inl StorageFailure else Inr db)"

text \<open>
  \<^verbatim>\<open>User.findByIdAndDelete(id)\<close>: the identifier is cast first, and a string that is no
  \<^verbatim>\<open>ObjectId\<close> rejects the promise with a cast error. Otherwise the first document with
  that \<^verbatim>\<open>_id\<close> is removed and returned, or \<^verbatim>\<open>null\<close> when there is none.
\<close>

definition findByIdAndDelete ::
  "connection \<Rightarrow> ('i, 'd) mongoose \<Rightarrow> string \<Rightarrow> ('i, 'd) collection
     \<Rightarrow> storage_error + ('i, 'd) user option \<times> ('i, 'd) collection"
where
  "findByIdAndDelete c lib ident db =
     (case castObjectId lib ident of
        None \<Rightarrow> Inl CastError
      | Some i \<Rightarrow>
          if c = Disconnected then Inl StorageFailure
          else (case find (\<lambda>u. oid u = i) db of
                  None \<Rightarrow> Inr (None, db)
                | Some u \<Rightarrow> Inr (Some u, remove1 u db)))"

text \<open>
  The update document \<^verbatim>\<open>{ name, email, dateOfBirth }\<close>. A key whose value is
  \<^verbatim>\<open>undefined\<close> is removed from the update (Mongoose 6 and later), so its path is
  left as it is; every other value is cast to the type of its path.
\<close>

datatype 'a change = Unchanged | Assign 'a

definition cast_key :: "(jsval \<Rightarrow> 'a casted) \<Rightarrow> jsval \<Rightarrow> 'a casted change" where
  "cast_key c v = (case v of JUndefined \<Rightarrow> Unchanged | _ \<Rightarrow> Assign (c v))"

fun cast_failed :: "'a casted change \<Rightarrow> bool" where
  "cast_failed (Assign CastFailure) = True"
| "cast_failed _ = False"

text \<open>
  \<^verbatim>\<open>runValidators: true\<close> runs the validators of each path that the update sets: the
  \<^verbatim>\<open>required\<close> validator refuses null, and the empty string on a string path.
\<close>

fun required_String :: "string casted change \<Rightarrow> bool" where
  "required_String Unchanged = True"
| "required_String (Assign (Val s)) = (s \<noteq> [])"
| "required_String (Assign _) = False"

fun required_Date :: "'d casted change \<Rightarrow> bool" where
  "required_Date Unchanged = True"
| "required_Date (Assign (Val d)) = True"
| "required_Date (Assign _) = False"

fun assigned :: "'a casted change \<Rightarrow> 'a \<Rightarrow> 'a" where
  "assigned (Assign (Val x)) old = x"
| "assigned _ old = old"

definition apply_update ::
  "string casted change \<Rightarrow> string casted change \<Rightarrow> 'd casted change
     \<Rightarrow> ('i, 'd) user \<Rightarrow> ('i, 'd) user"
where
  "apply_update n e d u =
     u\<lparr>name := assigned n (name u),
       email := assigned e (email u),
       dateOfBirth := assigned d (dateOfBirth u)\<rparr>"

fun update_first :: "('a \<Rightarrow> bool) \<Rightarrow> 'a \<Rightarrow> 'a list \<Rightarrow> 'a list" where
  "update_first P y [] = []"
| "update_first P y (x # xs) = (if P x then y # xs else x # update_first P y xs)"

text \<open>
  What the library does with the update before it sends anything to the database: it
  casts every value, and a value that cannot be cast rejects the promise with a cast
  error; then it runs the update validators, which reject it with a validation error.
\<close>

definition castUpdate ::
  "('i, 'd) mongoose \<Rightarrow> body
     \<Rightarrow> storage_error + string casted change \<times> string casted change \<times> 'd casted change"
where
  "castUpdate lib b =
     (let n = cast_key (SchemaString_cast lib) (req_name b);
          e = cast_key (SchemaString_cast lib) (req_email b);
          d = cast_key (SchemaDate_cast lib) (req_dateOfBirth b)
      in if cast_failed n \<or> cast_failed e \<or> cast_failed d then Inl CastError
         else if \<not> (required_String n \<and> required_String e \<and> required_Date d)
         then Inl ValidationError
         else Inr (n, e, d))"

text \<open>
  \<^verbatim>\<open>User.findByIdAndUpdate(id, { name, email, dateOfBirth }, { new: true, runValidators: true })\<close>.
  The identifier and the update are cast and validated first, so a value that cannot be
  cast or that a validator refuses rejects the promise whether or not a document
  matches. The database then changes the first document with that \<^verbatim>\<open>_id\<close>, refusing an
  email that another document holds, and \<^verbatim>\<open>new: true\<close> returns the document as it is
  after the change.
\<close>

definition findByIdAndUpdate ::
  "connection \<Rightarrow> ('i, 'd) mongoose \<Rightarrow> string \<Rightarrow> body \<Rightarrow> ('i, 'd) collection
     \<Rightarrow> storage_error + ('i, 'd) user option \<times> ('i, 'd) collection"
where
  "findByIdAndUpdate c lib ident b db =
     (case castObjectId lib ident of
        None \<Rightarrow> Inl CastError
      | Some i \<Rightarrow>
          (case castUpdate lib b of
             Inl error \<Rightarrow> Inl error
           | Inr (n, e, d) \<Rightarrow>
               if c = Disconnected then Inl StorageFailure
               else (case find (\<lambda>u. oid u = i) db of
                       None \<Rightarrow> Inr (None, db)
                     | Some u \<Rightarrow>
                         (let u' = apply_update n e d u
                          in if list_ex (\<lambda>w. oid w \<noteq> i \<and> email w = email u') db
                             then Inl DuplicateKey
                             else Inr (Some u', update_first (\<lambda>w. oid w = i) u' db)))))"

section \<open>The route handlers\<close>

text \<open>
  What \<^verbatim>\<open>res.status(n).json(...)\<close> sends: the status and the JSON body, which is an
  object with a message, an object with a message and a user, an object with a message
  and the caught error, or the array of users.
\<close>

datatype ('i, 'd) payload =
    Msg string
  | MsgUser string "('i, 'd) user"
  | MsgError string storage_error
  | Users "('i, 'd) user list"

record ('i, 'd) response =
  status :: nat
  json :: "('i, 'd) payload"

text \<open>
  Each handler is a function of the connection, the library, the request and the
  collection; it gives the response and the collection after it. Its \<^verbatim>\<open>catch\<close> branch
  answers whatever the library call throws.
\<close>

text \<open>\<^verbatim>\<open>app.post('/createUser', ...)\<close>\<close>

definition createUser_on ::
  "connection \<Rightarrow> ('i, 'd) mongoose \<Rightarrow> 'i \<Rightarrow> body \<Rightarrow> ('i, 'd) collection
     \<Rightarrow> ('i, 'd) response \<times> ('i, 'd) collection"
where
  "createUser_on c lib g b db =
     (if \<not> truthy (req_name b) \<or> \<not> truthy (req_email b) \<or> \<not> truthy (req_dateOfBirth b)
      then (\<lparr>status = 400, json = Msg ''All fields are required.''\<rparr>, db)
      else (let newUser = new_User lib g b
            in case save c newUser db of
                 Inl error \<Rightarrow> (\<lparr>status = 500, json = MsgError ''Error creating user'' error\<rparr>, db)
               | Inr (u, db') \<Rightarrow>
                   (\<lparr>status = 201, json = MsgUser ''User created successfully'' u\<rparr>, db')))"

text \<open>\<^verbatim>\<open>app.delete('/deleteUser/:id', ...)\<close>\<close>

definition deleteUser_on ::
  "connection \<Rightarrow> ('i, 'd) mongoose \<Rightarrow> string \<Rightarrow> ('i, 'd) collection
     \<Rightarrow> ('i, 'd) response \<times> ('i, 'd) collection"
where
  "deleteUser_on c lib ident db =
     (case findByIdAndDelete c lib ident db of
        Inl error \<Rightarrow> (\<lparr>status = 500, json = MsgError ''Error deleting user'' error\<rparr>, db)
      | Inr (None, db') \<Rightarrow> (\<lparr>status = 404, json = Msg ''User not found''\<rparr>, db')
      | Inr (Some deletedUser, db') \<Rightarrow>
          (\<lparr>status = 200, json = MsgUser ''User deleted successfully'' deletedUser\<rparr>, db'))"

text \<open>\<^verbatim>\<open>app.put('/updateUser/:id', ...)\<close>\<close>

definition updateUser_on ::
  "connection \<Rightarrow> ('i, 'd) mongoose \<Rightarrow> string \<Rightarrow> body \<Rightarrow> ('i, 'd) collection
     \<Rightarrow> ('i, 'd) response \<times> ('i, 'd) collection"
where
  "updateUser_on c lib ident b db =
     (if \<not> isValid lib ident
      then (\<lparr>status = 400, json = Msg ''Invalid user ID format''\<rparr>, db)
      else (case findByIdAndUpdate c lib ident b db of
              Inl error \<Rightarrow> (\<lparr>status = 500, json = MsgError ''Error updating user'' error\<rparr>, db)
            | Inr (None, db') \<Rightarrow> (\<lparr>status = 404, json = Msg ''User not found''\<rparr>, db')
            | Inr (Some updatedUser, db') \<Rightarrow>
                (\<lparr>status = 200, json = MsgUser ''User updated successfully'' updatedUser\<rparr>, db')))"

text \<open>\<^verbatim>\<open>app.get('/users', ...)\<close>\<close>

definition getUsers_on ::
  "connection \<Rightarrow> ('i, 'd) collection \<Rightarrow> ('i, 'd) response \<times> ('i, 'd) collection"
where
  "getUsers_on c db =
     (case find_all c db of
        Inl error \<Rightarrow> (\<lparr>status = 500, json = MsgError ''Error retrieving users'' error\<rparr>, db)
      | Inr users \<Rightarrow> (\<lparr>status = 200, json = Users users\<rparr>, db))"

text \<open>
  The handlers of a server whose connection is established, which is the server that a
  statement about stored and retrieved users is about.
\<close>

abbreviation createUser ::
  "('i, 'd) mongoose \<Rightarrow> 'i \<Rightarrow> body \<Rightarrow> ('i, 'd) collection
     \<Rightarrow> ('i, 'd) response \<times> ('i, 'd) collection"
where
  "createUser \<equiv> createUser_on Connected"

abbreviation deleteUser ::
  "('i, 'd) mongoose \<Rightarrow> string \<Rightarrow> ('i, 'd) collection
     \<Rightarrow> ('i, 'd) response \<times> ('i, 'd) collection"
where
  "deleteUser \<equiv> deleteUser_on Connected"

abbreviation updateUser ::
  "('i, 'd) mongoose \<Rightarrow> string \<Rightarrow> body \<Rightarrow> ('i, 'd) collection
     \<Rightarrow> ('i, 'd) response \<times> ('i, 'd) collection"
where
  "updateUser \<equiv> updateUser_on Connected"

abbreviation getUsers ::
  "('i, 'd) collection \<Rightarrow> ('i, 'd) response \<times> ('i, 'd) collection"
where
  "getUsers \<equiv> getUsers_on Connected"

section \<open>Sequences of requests\<close>

text \<open>
  The requests of the four routes. A create request comes with the identifier that
  \<^verbatim>\<open>new User\<close> generates for it. The server handles the requests one after the other,
  each on the collection that the one before it left.
\<close>

datatype 'i request =
    Create 'i body
  | Delete string
  | Update string body
  | GetAll

fun handle_on ::
  "connection \<Rightarrow> ('i, 'd) mongoose \<Rightarrow> 'i request \<Rightarrow> ('i, 'd) collection
     \<Rightarrow> ('i, 'd) response \<times> ('i, 'd) collection"
where
  "handle_on c lib (Create g b) db = createUser_on c lib g b db"
| "handle_on c lib (Delete ident) db = deleteUser_on c lib ident db"
| "handle_on c lib (Update ident b) db = updateUser_on c lib ident b db"
| "handle_on c lib GetAll db = getUsers_on c db"

abbreviation handle ::
  "('i, 'd) mongoose \<Rightarrow> 'i request \<Rightarrow> ('i, 'd) collection
     \<Rightarrow> ('i, 'd) response \<times> ('i, 'd) collection"
where
  "handle \<equiv> handle_on Connected"

fun serve ::
  "('i, 'd) mongoose \<Rightarrow> 'i request list \<Rightarrow> ('i, 'd) collection
     \<Rightarrow> ('i, 'd) response list \<times> ('i, 'd) collection"
where
  "serve lib [] db = ([], db)"
| "serve lib (r # rs) db =
     (let (res, db') = handle lib r db;
          (ress, db'') = serve lib rs db'
      in (res # ress, db''))"

text \<open>The identifiers that the create requests of a sequence bring.\<close>

fun created :: "'i request list \<Rightarrow> 'i list" where
  "created [] = []"
| "created (Create g b # rs) = g # created rs"
| "created (r # rs) = created rs"

text \<open>What the unique indexes on \<^verbatim>\<open>_id\<close> and on \<^verbatim>\<open>email\<close> guarantee of a collection.\<close>

definition unique_index :: "('i, 'd) collection \<Rightarrow> bool" where
  "unique_index db = (distinct (map oid db) \<and> distinct (map email db))"

section \<open>An instance of the library for examples\<close>

text \<open>
  To evaluate the handlers on concrete requests the conversions need values. This
  first instance takes an identifier to be 24 hexadecimal digits, read without regard to
  case, and a date to be a string of the form \<^verbatim>\<open>YYYY-MM-DD\<close>, kept as it is written;
  it converts no other value to a string or to a date.
\<close>

definition hexdigit :: "char \<Rightarrow> bool" where
  "hexdigit c = (c \<in> set ''0123456789abcdefABCDEF'')"

definition lower_hex :: "char \<Rightarrow> char" where
  "lower_hex c =
     (case map_of (zip ''ABCDEF'' ''abcdef'') c of None \<Rightarrow> c | Some l \<Rightarrow> l)"

definition hex24 :: "string \<Rightarrow> string option" where
  "hex24 s = (if length s = 24 \<and> list_all hexdigit s then Some (map lower_hex s) else None)"

definition digit :: "char \<Rightarrow> bool" where
  "digit c = (c \<in> set ''0123456789'')"

definition iso_date :: "jsval \<Rightarrow> string option" where
  "iso_date v =
     (case v of
        JStr s \<Rightarrow>
          if length s = 10 \<and> list_all digit (take 4 s) \<and> take 1 (drop 4 s) = ''-''
             \<and> list_all digit (take 2 (drop 5 s)) \<and> take 1 (drop 7 s) = ''-''
             \<and> list_all digit (drop 8 s)
          then Some s else None
      | _ \<Rightarrow> None)"

definition sample_lib :: "(string, string) mongoose" where
  "sample_lib = \<lparr>castObjectId = hex24, castString = (\<lambda>v. None), castDate = iso_date\<rparr>"

definition alice :: "(string, string) user" where
  "alice = \<lparr>oid = ''64f74c8e524a1c0012a34567'', name = ''Alice'',
            email = ''alice@example.com'', dateOfBirth = ''1990-01-01''\<rparr>"

definition bob :: "(string, string) user" where
  "bob = \<lparr>oid = ''64f74c8e524a1c0012a34568'', name = ''Bob'',
          email = ''bob@example.com'', dateOfBirth = ''1992-05-15''\<rparr>"





section \<open>Facts about the library model\<close>

lemma find_oid_None: "(find (\<lambda>u. oid u = i) db = None) = (\<forall>u\<in>set db. oid u \<noteq> i)"
  by (induction db) auto

lemma find_oid_Some:
  "distinct (map oid db) \<Longrightarrow> u \<in> set db \<Longrightarrow> find (\<lambda>w. oid w = oid u) db = Some u"
  by (induction db) (auto simp: image_iff)

lemma find_Some_mem: "find P xs = Some x \<Longrightarrow> x \<in> set xs \<and> P x"
  by (induction xs) (auto split: if_splits)

lemma map_oid_update_first:
  "oid y = i \<Longrightarrow> map oid (update_first (\<lambda>w. oid w = i) y db) = map oid db"
  by (induction db) auto

lemma oid_apply_update: "oid (apply_update n e d u) = oid u"
  by (simp add: apply_update_def)

lemma validate_new_User:
  "validate (new_User lib g b) = Some u \<longleftrightarrow>
     (\<exists>n e d. SchemaString_cast lib (req_name b) = Val n \<and> n \<noteq> [] \<and>
        SchemaString_cast lib (req_email b) = Val e \<and> e \<noteq> [] \<and>
        SchemaDate_cast lib (req_dateOfBirth b) = Val d \<and>
        u = \<lparr>oid = g, name = n, email = e, dateOfBirth = d\<rparr>)"
  by (auto simp: validate_def new_User_def split: casted.splits)

lemma save_Inr:
  "save Connected doc db = Inr (u, db') \<longleftrightarrow>
     validate doc = Some u \<and> oid u \<notin> oid ` set db \<and> email u \<notin> email ` set db \<and> db' = db @ [u]"
  by (auto simp: save_def split: option.splits)

lemma save_Inl:
  "save Connected doc db = Inl err \<longleftrightarrow>
     (validate doc = None \<and> err = ValidationError) \<or>
     (\<exists>u. validate doc = Some u \<and> (oid u \<in> oid ` set db \<or> email u \<in> email ` set db) \<and> err = DuplicateKey)"
  by (auto simp: save_def split: option.splits)

lemma castUpdate_Inr:
  "castUpdate lib b = Inr (n, e, d) \<Longrightarrow>
     n = cast_key (SchemaString_cast lib) (req_name b) \<and>
     e = cast_key (SchemaString_cast lib) (req_email b) \<and>
     d = cast_key (SchemaDate_cast lib) (req_dateOfBirth b) \<and>
     \<not> cast_failed n \<and> \<not> cast_failed e \<and> \<not> cast_failed d \<and>
     required_String n \<and> required_String e \<and> required_Date d"
  by (auto simp: castUpdate_def Let_def split: if_splits)

lemma update_first_mem:
  "\<exists>x\<in>set xs. P x \<Longrightarrow> y \<in> set (update_first P y xs)"
  by (induction xs) auto

lemma createUser_201:
  "status (fst (createUser lib g b db)) = 201 \<Longrightarrow>
     \<exists>u. validate (new_User lib g b) = Some u \<and> snd (createUser lib g b db) = db @ [u]
       \<and> json (fst (createUser lib g b db)) = MsgUser ''User created successfully'' u"
  by (auto simp: createUser_on_def Let_def save_Inr split: sum.splits if_splits)

lemma serve_Cons:
  "serve lib (r # rs) db =
     (fst (handle lib r db) # fst (serve lib rs (snd (handle lib r db))),
      snd (serve lib rs (snd (handle lib r db))))"
  by (simp add: split_beta)


text \<open>Every way a handler can answer, with what its input and the collection are then.\<close>

lemma createUser_outcome:
  "(\<not> truthy (req_name b) \<or> \<not> truthy (req_email b) \<or> \<not> truthy (req_dateOfBirth b))
     \<and> createUser lib g b db = (\<lparr>status = 400, json = Msg ''All fields are required.''\<rparr>, db)
   \<or> truthy (req_name b) \<and> truthy (req_email b) \<and> truthy (req_dateOfBirth b)
     \<and> (\<exists>err. createUser lib g b db =
            (\<lparr>status = 500, json = MsgError ''Error creating user'' err\<rparr>, db))
   \<or> truthy (req_name b) \<and> truthy (req_email b) \<and> truthy (req_dateOfBirth b)
     \<and> (\<exists>u. createUser lib g b db =
            (\<lparr>status = 201, json = MsgUser ''User created successfully'' u\<rparr>, db @ [u]))"
  by (auto simp: createUser_on_def Let_def save_Inr split: sum.splits)

lemma deleteUser_outcome:
  "castObjectId lib ident = None
     \<and> deleteUser lib ident db =
         (\<lparr>status = 500, json = MsgError ''Error deleting user'' CastError\<rparr>, db)
   \<or> (\<exists>i. castObjectId lib ident = Some i \<and> (\<forall>u\<in>set db. oid u \<noteq> i)
         \<and> deleteUser lib ident db = (\<lparr>status = 404, json = Msg ''User not found''\<rparr>, db))
   \<or> (\<exists>i u. castObjectId lib ident = Some i \<and> u \<in> set db \<and> oid u = i
         \<and> deleteUser lib ident db =
             (\<lparr>status = 200, json = MsgUser ''User deleted successfully'' u\<rparr>, remove1 u db))"
proof (cases "castObjectId lib ident")
  case None
  then show ?thesis by (simp add: deleteUser_on_def findByIdAndDelete_def)
next
  case (Some i)
  show ?thesis
  proof (cases "find (\<lambda>u. oid u = i) db")
    case None
    then have "\<forall>u\<in>set db. oid u \<noteq> i" by (simp add: find_oid_None)
    with Some None show ?thesis by (simp add: deleteUser_on_def findByIdAndDelete_def)
  next
    case (Some u)
    from find_Some_mem [OF this] have "u \<in> set db" "oid u = i" by auto
    with Some \<open>castObjectId lib ident = Some i\<close> show ?thesis
      by (simp add: deleteUser_on_def findByIdAndDelete_def)
  qed
qed

lemma updateUser_outcome:
  "\<not> isValid lib ident
     \<and> updateUser lib ident b db = (\<lparr>status = 400, json = Msg ''Invalid user ID format''\<rparr>, db)
   \<or> (\<exists>i err. castObjectId lib ident = Some i \<and> castUpdate lib b = Inl err
         \<and> updateUser lib ident b db =
             (\<lparr>status = 500, json = MsgError ''Error updating user'' err\<rparr>, db))
   \<or> (\<exists>i c. castObjectId lib ident = Some i \<and> castUpdate lib b = Inr c
         \<and> (\<forall>u\<in>set db. oid u \<noteq> i)
         \<and> updateUser lib ident b db = (\<lparr>status = 404, json = Msg ''User not found''\<rparr>, db))
   \<or> (\<exists>i c u. castObjectId lib ident = Some i \<and> castUpdate lib b = Inr c
         \<and> u \<in> set db \<and> oid u = i
         \<and> updateUser lib ident b db =
             (\<lparr>status = 500, json = MsgError ''Error updating user'' DuplicateKey\<rparr>, db))
   \<or> (\<exists>i c u u'. castObjectId lib ident = Some i \<and> castUpdate lib b = Inr c
         \<and> u \<in> set db \<and> oid u = i \<and> oid u' = i
         \<and> updateUser lib ident b db =
             (\<lparr>status = 200, json = MsgUser ''User updated successfully'' u'\<rparr>,
              update_first (\<lambda>w. oid w = i) u' db))"
proof (cases "castObjectId lib ident")
  case None
  then show ?thesis by (simp add: updateUser_on_def isValid_def)
next
  case (Some i)
  then have v: "isValid lib ident" by (simp add: isValid_def)
  show ?thesis
  proof (cases "castUpdate lib b")
    case (Inl err)
    with Some v show ?thesis by (simp add: updateUser_on_def findByIdAndUpdate_def)
  next
    case (Inr c)
    obtain n e d where c: "c = (n, e, d)" by (cases c)
    show ?thesis
    proof (cases "find (\<lambda>u. oid u = i) db")
      case None
      then have "\<forall>u\<in>set db. oid u \<noteq> i" by (simp add: find_oid_None)
      with Some v Inr None c show ?thesis
        by (simp add: updateUser_on_def findByIdAndUpdate_def)
    next
      case (Some u)
      from find_Some_mem [OF this] have u: "u \<in> set db" "oid u = i" by auto
      have o: "oid (apply_update n e d u) = i" using u by (simp add: oid_apply_update)
      show ?thesis
      proof (cases "list_ex (\<lambda>w. oid w \<noteq> i \<and> email w = email (apply_update n e d u)) db")
        case True
        with Some v Inr c u \<open>castObjectId lib ident = Some i\<close> have
          "castObjectId lib ident = Some i \<and> castUpdate lib b = Inr c
         \<and> u \<in> set db \<and> oid u = i
         \<and> updateUser lib ident b db =
             (\<lparr>status = 500, json = MsgError ''Error updating user'' DuplicateKey\<rparr>, db)"
          by (simp add: updateUser_on_def findByIdAndUpdate_def Let_def)
        then show ?thesis by blast
      next
        case False
        with Some v Inr c u o \<open>castObjectId lib ident = Some i\<close> have
          "castObjectId lib ident = Some i \<and> castUpdate lib b = Inr c
         \<and> u \<in> set db \<and> oid u = i \<and> oid (apply_update n e d u) = i
         \<and> updateUser lib ident b db =
             (\<lparr>status = 200, json = MsgUser ''User updated successfully'' (apply_update n e d u)\<rparr>,
              update_first (\<lambda>w. oid w = i) (apply_update n e d u) db)"
          by (simp add: updateUser_on_def findByIdAndUpdate_def Let_def)
        then show ?thesis by blast
      qed
    qed
  qed
qed

lemma updateUser_oids: "map oid (snd (updateUser lib ident b db)) = map oid db"
  using updateUser_outcome [of lib ident b db]
  by (auto simp: map_oid_update_first)

lemma subseq_remove1: "subseq (remove1 x xs) xs"
  by (induction xs) auto

lemma handle_oids:
  "subseq (map oid (snd (handle lib rq db)) @ created rs) (map oid db @ created (rq # rs))"
proof (cases rq)
  case (Create g b)
  from createUser_outcome [of b lib g db]
  have "snd (createUser lib g b db) = db \<or> (\<exists>u. validate (new_User lib g b) = Some u
      \<and> snd (createUser lib g b db) = db @ [u])"
    by (metis createUser_201 fst_conv snd_conv select_convs(1))
  then show ?thesis
  proof
    assume "snd (createUser lib g b db) = db"
    moreover have "subseq (created rs) (g # created rs)"
      by (rule list_emb_Cons) simp
    then have "subseq (map oid db @ created rs) (map oid db @ g # created rs)"
      by (intro list_emb_append_mono) simp_all
    ultimately show ?thesis using Create by simp
  next
    assume "\<exists>u. validate (new_User lib g b) = Some u \<and> snd (createUser lib g b db) = db @ [u]"
    then obtain u where "validate (new_User lib g b) = Some u" "snd (createUser lib g b db) = db @ [u]"
      by blast
    moreover from this have "oid u = g" by (auto simp: validate_new_User)
    ultimately show ?thesis using Create by simp
  qed
next
  case (Delete ident)
  from deleteUser_outcome [of lib ident db]
  have "subseq (snd (deleteUser lib ident db)) db"
    by (auto simp: subseq_remove1)
  then have "subseq (map oid (snd (deleteUser lib ident db))) (map oid db)"
    by (rule subseq_map)
  then show ?thesis using Delete by (simp add: list_emb_append_mono)
next
  case (Update ident b)
  then show ?thesis by (simp add: updateUser_oids)
next
  case GetAll
  then show ?thesis by (simp add: getUsers_on_def find_all_def)
qed

lemma serve_oids: "subseq (map oid (snd (serve lib rqs db))) (map oid db @ created rqs)"
proof (induction rqs arbitrary: db)
  case Nil
  then show ?case by simp
next
  case (Cons rq rqs)
  have "subseq (map oid (snd (serve lib rqs (snd (handle lib rq db)))))
          (map oid (snd (handle lib rq db)) @ created rqs)"
    by (rule Cons.IH)
  also have "subseq \<dots> (map oid db @ created (rq # rqs))" by (rule handle_oids)
  finally show ?case by (simp add: serve_Cons del: serve.simps)
qed








text \<open>
  The handlers keep what the unique indexes guarantee, so every collection that the
  server reaches from the empty one has distinct identifiers and distinct emails.
\<close>

lemma distinct_email_update_first:
  "distinct (map email db) \<Longrightarrow> distinct (map oid db) \<Longrightarrow> oid y = i \<Longrightarrow>
   \<forall>w\<in>set db. oid w \<noteq> i \<longrightarrow> email w \<noteq> email y \<Longrightarrow>
   distinct (map email (update_first (\<lambda>w. oid w = i) y db))"
proof (induction db)
  case Nil
  then show ?case by simp
next
  case (Cons x db)
  show ?case
  proof (cases "oid x = i")
    case True
    then have "\<forall>w\<in>set db. oid w \<noteq> i" using Cons.prems(2) by (auto simp: image_iff)
    then have "email y \<notin> email ` set db" using Cons.prems(4) by auto
    then show ?thesis using True Cons.prems(1) by simp
  next
    case False
    have "set (update_first (\<lambda>w. oid w = i) y db) \<subseteq> insert y (set db)"
      by (induction db) auto
    then have "email x \<notin> email ` set (update_first (\<lambda>w. oid w = i) y db)"
      using Cons.prems(1,4) False by (auto simp: image_iff)
    then show ?thesis using False Cons by simp
  qed
qed

lemma distinct_map_remove1: "distinct (map f xs) \<Longrightarrow> distinct (map f (remove1 x xs))"
proof (induction xs)
  case Nil
  then show ?case by simp
next
  case (Cons a xs)
  have "f a \<notin> f ` set (remove1 x xs)" if "f a \<notin> f ` set xs"
    using that set_remove1_subset [of x xs] by blast
  with Cons show ?case by auto
qed

lemma handle_unique_index:
  assumes "unique_index db"
  shows "unique_index (snd (handle lib rq db))"
proof (cases rq)
  case (Create g b)
  from createUser_201 [of lib g b db] createUser_outcome [of b lib g db]
  have "snd (createUser lib g b db) = db \<or>
    (\<exists>u. save Connected (new_User lib g b) db = Inr (u, db @ [u]) \<and> snd (createUser lib g b db) = db @ [u])"
    by (auto simp: createUser_on_def Let_def save_Inr split: sum.splits)
  then show ?thesis using assms Create
    by (auto simp: unique_index_def save_Inr)
next
  case (Delete ident)
  from deleteUser_outcome [of lib ident db]
  have "snd (deleteUser lib ident db) = db \<or> (\<exists>u. snd (deleteUser lib ident db) = remove1 u db)"
    by auto
  moreover have "distinct (map oid (remove1 u db))" "distinct (map email (remove1 u db))" for u
    using assms by (simp_all add: unique_index_def distinct_map_remove1)
  ultimately show ?thesis using assms Delete by (auto simp: unique_index_def)
next
  case (Update ident b)
  have o: "distinct (map oid (snd (updateUser lib ident b db)))"
    using assms by (simp add: updateUser_oids unique_index_def)
  have e: "distinct (map email (snd (updateUser lib ident b db)))"
  proof (cases "status (fst (updateUser lib ident b db)) = 200")
    case False
    with updateUser_outcome [of lib ident b db] have "snd (updateUser lib ident b db) = db"
      by auto
    then show ?thesis using assms by (simp add: unique_index_def)
  next
    case True
    then obtain i n e d u where
      i: "castObjectId lib ident = Some i" and c: "castUpdate lib b = Inr (n, e, d)"
      and f: "find (\<lambda>w. oid w = i) db = Some u"
      and nd: "\<not> list_ex (\<lambda>w. oid w \<noteq> i \<and> email w = email (apply_update n e d u)) db"
      and r: "snd (updateUser lib ident b db) =
        update_first (\<lambda>w. oid w = i) (apply_update n e d u) db"
      by (auto simp: updateUser_on_def findByIdAndUpdate_def Let_def
            split: if_splits option.splits sum.splits)
    from find_Some_mem [OF f] have "oid (apply_update n e d u) = i"
      by (simp add: oid_apply_update)
    moreover from nd have "\<forall>w\<in>set db. oid w \<noteq> i \<longrightarrow> email w \<noteq> email (apply_update n e d u)"
      by (auto simp: list_ex_iff)
    ultimately show ?thesis unfolding r using assms
      by (intro distinct_email_update_first) (simp_all add: unique_index_def)
  qed
  from o e show ?thesis using Update by (simp add: unique_index_def)
next
  case GetAll
  then show ?thesis using assms by (simp add: getUsers_on_def find_all_def)
qed

lemma serve_unique_index: "unique_index db \<Longrightarrow> unique_index (snd (serve lib rqs db))"
proof (induction rqs arbitrary: db)
  case Nil
  then show ?case by simp
next
  case (Cons rq rqs)
  from Cons.prems have "unique_index (snd (handle lib rq db))" by (rule handle_unique_index)
  then have "unique_index (snd (serve lib rqs (snd (handle lib rq db))))" by (rule Cons.IH)
  then show ?case by (simp add: serve_Cons del: serve.simps)
qed

lemma unique_index_empty: "unique_index []"
  by (simp add: unique_index_def)

section \<open>Creating a user\<close>

text \<open>
  C1, as the code has it. A create request whose email is the email of a stored user
  fails, with status 400 or 500, stores nothing, and leaves that user in what
  \<^verbatim>\<open>GET /users\<close> returns. The failure is the duplicate-key error of the unique index,
  sent with status 500, when the request passes the presence check and the validation
  of the schema; the handler has no answer of its own for a conflict.
\<close>

theorem createUser_duplicate_email:
  assumes "u \<in> set db" and "SchemaString_cast lib (req_email b) = Val (email u)"
  shows "snd (createUser lib g b db) = db
     \<and> status (fst (createUser lib g b db)) \<in> {400, 500}
     \<and> (\<exists>us. json (fst (getUsers (snd (createUser lib g b db)))) = Users us \<and> u \<in> set us)
     \<and> (truthy (req_name b) \<and> truthy (req_email b) \<and> truthy (req_dateOfBirth b)
          \<and> validate (new_User lib g b) \<noteq> None \<longrightarrow>
        fst (createUser lib g b db) =
          \<lparr>status = 500, json = MsgError ''Error creating user'' DuplicateKey\<rparr>)"
proof -
  have dup: "save Connected (new_User lib g b) db = Inl DuplicateKey" if "validate (new_User lib g b) = Some w" for w
  proof -
    from that assms(2) have "email w = email u" by (auto simp: validate_new_User)
    with assms(1) have "email w \<in> email ` set db" by auto
    with that show ?thesis by (simp add: save_Inl)
  qed
  have nosave: "save Connected (new_User lib g b) db \<noteq> Inr p" for p
  proof
    assume a: "save Connected (new_User lib g b) db = Inr p"
    then have "validate (new_User lib g b) = Some (fst p)"
      by (cases p) (simp add: save_Inr)
    from dup [OF this] a show False by simp
  qed
  have 1: "snd (createUser lib g b db) = db"
    using nosave by (auto simp: createUser_on_def Let_def split: sum.splits)
  have 2: "status (fst (createUser lib g b db)) \<in> {400, 500}"
    using nosave by (auto simp: createUser_on_def Let_def split: sum.splits)
  have 3: "\<exists>us. json (fst (getUsers (snd (createUser lib g b db)))) = Users us \<and> u \<in> set us"
    using assms(1) by (simp add: 1 getUsers_on_def find_all_def)
  have 4: "fst (createUser lib g b db) =
          \<lparr>status = 500, json = MsgError ''Error creating user'' DuplicateKey\<rparr>"
    if "truthy (req_name b) \<and> truthy (req_email b) \<and> truthy (req_dateOfBirth b)
          \<and> validate (new_User lib g b) \<noteq> None"
    using that dup by (auto simp: createUser_on_def Let_def)
  from 1 2 3 4 show ?thesis by blast
qed

text \<open>
  The claim as it is written fails where a field is present and the request is refused
  before the index is consulted: a date of birth that is no date is a validation error,
  and an empty name is answered with status 400.
\<close>

theorem createUser_duplicate_email_counterexample:
  "alice \<in> set [alice]
   \<and> req_email \<lparr>req_name = JStr ''Bob'', req_email = JStr ''alice@example.com'',
        req_dateOfBirth = JStr ''soon''\<rparr> = JStr (email alice)
   \<and> createUser sample_lib ''64f74c8e524a1c0012a34569''
       \<lparr>req_name = JStr ''Bob'', req_email = JStr ''alice@example.com'',
        req_dateOfBirth = JStr ''soon''\<rparr> [alice]
     = (\<lparr>status = 500, json = MsgError ''Error creating user'' ValidationError\<rparr>, [alice])
   \<and> createUser sample_lib ''64f74c8e524a1c0012a34569''
       \<lparr>req_name = JStr '''', req_email = JStr ''alice@example.com'',
        req_dateOfBirth = JStr ''1992-05-15''\<rparr> [alice]
     = (\<lparr>status = 400, json = Msg ''All fields are required.''\<rparr>, [alice])"
  by (simp add: createUser_on_def new_User_def save_def validate_def SchemaString_cast_def
        SchemaDate_cast_def sample_lib_def iso_date_def alice_def)

theorem createUser_duplicate_email_witness:
  "createUser sample_lib ''64f74c8e524a1c0012a34569''
       \<lparr>req_name = JStr ''Bob'', req_email = JStr ''alice@example.com'',
        req_dateOfBirth = JStr ''1992-05-15''\<rparr> [alice]
     = (\<lparr>status = 500, json = MsgError ''Error creating user'' DuplicateKey\<rparr>, [alice])"
proof -
  let ?b = "\<lparr>req_name = JStr ''Bob'', req_email = JStr ''alice@example.com'',
        req_dateOfBirth = JStr ''1992-05-15''\<rparr>"
  have h1: "alice \<in> set [alice]" by simp
  have h2: "SchemaString_cast sample_lib (req_email ?b) = Val (email alice)"
    by (simp add: SchemaString_cast_def alice_def)
  have h3: "truthy (req_name ?b) \<and> truthy (req_email ?b) \<and> truthy (req_dateOfBirth ?b)
          \<and> validate (new_User sample_lib ''64f74c8e524a1c0012a34569'' ?b) \<noteq> None"
    by (simp add: new_User_def validate_def SchemaString_cast_def
        SchemaDate_cast_def sample_lib_def iso_date_def digit_def)
  from createUser_duplicate_email [OF h1 h2, of "''64f74c8e524a1c0012a34569''"] h3
  show ?thesis by (metis prod.collapse)
qed

text \<open>
  C2, as the code has it. When the three fields are truthy, the schema accepts them
  (the casts succeed and the strings are not empty), the generated identifier is new
  to the collection and no stored user has the email, the handler answers 201 with the
  record it appended to the collection. The record carries the generated identifier and
  the cast values; a name or an email given as a string is stored as that string.
\<close>

theorem createUser_created:
  assumes "truthy (req_name b)" and "truthy (req_email b)" and "truthy (req_dateOfBirth b)"
    and "SchemaString_cast lib (req_name b) = Val n" and "n \<noteq> []"
    and "SchemaString_cast lib (req_email b) = Val e" and "e \<noteq> []"
    and "SchemaDate_cast lib (req_dateOfBirth b) = Val d"
    and "g \<notin> oid ` set db" and "e \<notin> email ` set db"
  shows "createUser lib g b db =
           (\<lparr>status = 201,
             json = MsgUser ''User created successfully''
                      \<lparr>oid = g, name = n, email = e, dateOfBirth = d\<rparr>\<rparr>,
            db @ [\<lparr>oid = g, name = n, email = e, dateOfBirth = d\<rparr>])
     \<and> (\<forall>s. req_name b = JStr s \<longrightarrow> n = s)
     \<and> (\<forall>s. req_email b = JStr s \<longrightarrow> e = s)"
proof -
  have v: "validate (new_User lib g b) = Some \<lparr>oid = g, name = n, email = e, dateOfBirth = d\<rparr>"
    using assms by (simp add: validate_new_User)
  have s: "save Connected (new_User lib g b) db =
      Inr (\<lparr>oid = g, name = n, email = e, dateOfBirth = d\<rparr>,
           db @ [\<lparr>oid = g, name = n, email = e, dateOfBirth = d\<rparr>])"
    using v assms(9,10) by (simp add: save_Inr)
  have "createUser lib g b db =
           (\<lparr>status = 201,
             json = MsgUser ''User created successfully''
                      \<lparr>oid = g, name = n, email = e, dateOfBirth = d\<rparr>\<rparr>,
            db @ [\<lparr>oid = g, name = n, email = e, dateOfBirth = d\<rparr>])"
    using assms(1-3) s by (simp add: createUser_on_def)
  moreover have "\<forall>s. req_name b = JStr s \<longrightarrow> n = s"
    using assms(4) by (auto simp: SchemaString_cast_def)
  moreover have "\<forall>s. req_email b = JStr s \<longrightarrow> e = s"
    using assms(6) by (auto simp: SchemaString_cast_def)
  ultimately show ?thesis by blast
qed

text \<open>
  With all three fields present the answer is not always 201: the email of a stored
  user is refused by the unique index and the handler answers 500.
\<close>

theorem createUser_created_counterexample:
  "req_name \<lparr>req_name = JStr ''Bob'', req_email = JStr ''alice@example.com'',
        req_dateOfBirth = JStr ''1992-05-15''\<rparr> \<noteq> JUndefined
   \<and> createUser sample_lib ''64f74c8e524a1c0012a34569''
       \<lparr>req_name = JStr ''Bob'', req_email = JStr ''alice@example.com'',
        req_dateOfBirth = JStr ''1992-05-15''\<rparr> [alice]
     = (\<lparr>status = 500, json = MsgError ''Error creating user'' DuplicateKey\<rparr>, [alice])"
  by (simp add: createUser_on_def new_User_def save_def validate_def SchemaString_cast_def
        SchemaDate_cast_def sample_lib_def iso_date_def alice_def digit_def)

theorem createUser_created_witness:
  "createUser sample_lib ''64f74c8e524a1c0012a34568''
       \<lparr>req_name = JStr ''Bob'', req_email = JStr ''bob@example.com'',
        req_dateOfBirth = JStr ''1992-05-15''\<rparr> [alice]
     = (\<lparr>status = 201, json = MsgUser ''User created successfully'' bob\<rparr>, [alice, bob])"
proof -
  let ?b = "\<lparr>req_name = JStr ''Bob'', req_email = JStr ''bob@example.com'',
        req_dateOfBirth = JStr ''1992-05-15''\<rparr>"
  have h: "truthy (req_name ?b)" "truthy (req_email ?b)" "truthy (req_dateOfBirth ?b)"
    "SchemaString_cast sample_lib (req_name ?b) = Val ''Bob''" "''Bob'' \<noteq> []"
    "SchemaString_cast sample_lib (req_email ?b) = Val ''bob@example.com''"
    "''bob@example.com'' \<noteq> []"
    "SchemaDate_cast sample_lib (req_dateOfBirth ?b) = Val ''1992-05-15''"
    "''64f74c8e524a1c0012a34568'' \<notin> oid ` set [alice]"
    "''bob@example.com'' \<notin> email ` set [alice]"
    by (simp_all add: SchemaString_cast_def SchemaDate_cast_def sample_lib_def iso_date_def
          digit_def alice_def)
  from createUser_created [OF h] show ?thesis by (simp add: bob_def)
qed

text \<open>
  C5. A create request that lacks the name, the email or the date of birth is answered
  with status 400, and the collection is the one before the request, so \<^verbatim>\<open>GET /users\<close>
  returns what it returned before.
\<close>

theorem createUser_missing_field:
  "req_name b = JUndefined \<or> req_email b = JUndefined \<or> req_dateOfBirth b = JUndefined \<Longrightarrow>
   createUser lib g b db = (\<lparr>status = 400, json = Msg ''All fields are required.''\<rparr>, db)
   \<and> fst (getUsers (snd (createUser lib g b db))) = fst (getUsers db)"
  by (auto simp: createUser_on_def)

theorem createUser_missing_field_witness:
  "createUser sample_lib ''64f74c8e524a1c0012a34569''
     \<lparr>req_name = JStr ''Bob'', req_email = JUndefined, req_dateOfBirth = JStr ''1992-05-15''\<rparr> [alice]
   = (\<lparr>status = 400, json = Msg ''All fields are required.''\<rparr>, [alice])"
  using createUser_missing_field [of "\<lparr>req_name = JStr ''Bob'', req_email = JUndefined, req_dateOfBirth = JStr ''1992-05-15''\<rparr>" sample_lib "''64f74c8e524a1c0012a34569''" "[alice]"]
  by simp

text \<open>
  C10. The handler answers 400 with \<^verbatim>\<open>All fields are required.\<close> exactly when one of
  the three fields is falsy, which an empty string and null are as much as a missing
  key. The answer is then the same for every collection, every identifier and every
  library, and the collection is left as it was: the check comes before any use of the
  storage.
\<close>

theorem createUser_400_iff:
  "(fst (createUser lib g b db) = \<lparr>status = 400, json = Msg ''All fields are required.''\<rparr>)
     = (\<not> truthy (req_name b) \<or> \<not> truthy (req_email b) \<or> \<not> truthy (req_dateOfBirth b))
   \<and> (status (fst (createUser lib g b db)) = 400)
     = (\<not> truthy (req_name b) \<or> \<not> truthy (req_email b) \<or> \<not> truthy (req_dateOfBirth b))
   \<and> (\<not> truthy (req_name b) \<or> \<not> truthy (req_email b) \<or> \<not> truthy (req_dateOfBirth b) \<longrightarrow>
        createUser lib g b db = (\<lparr>status = 400, json = Msg ''All fields are required.''\<rparr>, db)
        \<and> fst (createUser lib' g' b db') = fst (createUser lib g b db))"
  by (auto simp: createUser_on_def Let_def split: sum.splits)

theorem createUser_400_iff_witness:
  "fst (createUser sample_lib ''64f74c8e524a1c0012a34568''
     \<lparr>req_name = JStr '''', req_email = JStr ''bob@example.com'', req_dateOfBirth = JNull\<rparr> [alice])
     = \<lparr>status = 400, json = Msg ''All fields are required.''\<rparr>
   \<and> status (fst (createUser sample_lib ''64f74c8e524a1c0012a34568''
     \<lparr>req_name = JStr ''Bob'', req_email = JStr ''bob@example.com'',
      req_dateOfBirth = JStr ''1992-05-15''\<rparr> [alice])) \<noteq> 400"
proof -
  let ?b = "\<lparr>req_name = JStr '''', req_email = JStr ''bob@example.com'', req_dateOfBirth = JNull\<rparr>"
  let ?c = "\<lparr>req_name = JStr ''Bob'', req_email = JStr ''bob@example.com'',
      req_dateOfBirth = JStr ''1992-05-15''\<rparr>"
  have h: "\<not> truthy (req_name ?b) \<or> \<not> truthy (req_email ?b) \<or> \<not> truthy (req_dateOfBirth ?b)"
    by simp
  have k: "\<not> (\<not> truthy (req_name ?c) \<or> \<not> truthy (req_email ?c) \<or> \<not> truthy (req_dateOfBirth ?c))"
    by simp
  from createUser_400_iff [of sample_lib "''64f74c8e524a1c0012a34568''" ?b "[alice]"] h
  have "fst (createUser sample_lib ''64f74c8e524a1c0012a34568'' ?b [alice])
     = \<lparr>status = 400, json = Msg ''All fields are required.''\<rparr>" by blast
  moreover from createUser_400_iff [of sample_lib "''64f74c8e524a1c0012a34568''" ?c "[alice]"] k
  have "status (fst (createUser sample_lib ''64f74c8e524a1c0012a34568'' ?c [alice])) \<noteq> 400"
    by blast
  ultimately show ?thesis by blast
qed

section \<open>Updating a user\<close>

text \<open>
  C3, as the code has it. An identifier that is not well-formed is answered with status
  400 whatever the body and the collection are, so before any lookup. A well-formed
  identifier that no stored record has is answered with 404 when the library accepts
  the update, that is when every supplied value can be cast and passes the validators
  that \<^verbatim>\<open>runValidators: true\<close> asks for.
\<close>

theorem updateUser_invalid_or_missing:
  "(\<not> isValid lib ident \<longrightarrow>
      updateUser lib ident b db = (\<lparr>status = 400, json = Msg ''Invalid user ID format''\<rparr>, db))
   \<and> (\<forall>i c. castObjectId lib ident = Some i \<and> (\<forall>u\<in>set db. oid u \<noteq> i)
          \<and> castUpdate lib b = Inr c \<longrightarrow>
      updateUser lib ident b db = (\<lparr>status = 404, json = Msg ''User not found''\<rparr>, db))"
proof -
  have a: "updateUser lib ident b db = (\<lparr>status = 400, json = Msg ''Invalid user ID format''\<rparr>, db)"
    if "\<not> isValid lib ident"
    using that by (simp add: updateUser_on_def)
  have b: "updateUser lib ident b db = (\<lparr>status = 404, json = Msg ''User not found''\<rparr>, db)"
    if "castObjectId lib ident = Some i" and "\<forall>u\<in>set db. oid u \<noteq> i"
      and "castUpdate lib b = Inr c" for i c
  proof -
    have "find (\<lambda>u. oid u = i) db = None" using that(2) by (simp add: find_oid_None)
    then have "findByIdAndUpdate Connected lib ident b db = Inr (None, db)"
      using that(1,3) by (cases c) (simp add: findByIdAndUpdate_def)
    then show ?thesis using that(1) by (simp add: updateUser_on_def isValid_def)
  qed
  from a b show ?thesis by blast
qed

text \<open>
  A well-formed identifier without a record is not always answered with 404: when a
  supplied value cannot be cast, the library rejects the update before it looks for the
  record, and the handler answers 500.
\<close>

theorem updateUser_invalid_or_missing_counterexample:
  "isValid sample_lib ''64f74c8e524a1c0012a34569''
   \<and> castObjectId sample_lib ''64f74c8e524a1c0012a34569'' = Some ''64f74c8e524a1c0012a34569''
   \<and> ''64f74c8e524a1c0012a34569'' \<notin> oid ` set [alice, bob]
   \<and> updateUser sample_lib ''64f74c8e524a1c0012a34569''
        \<lparr>req_name = JStr ''Carol'', req_email = JStr ''carol@example.com'',
         req_dateOfBirth = JStr ''not-a-date''\<rparr> [alice, bob]
      = (\<lparr>status = 500, json = MsgError ''Error updating user'' CastError\<rparr>, [alice, bob])"
  by (simp add: updateUser_on_def isValid_def findByIdAndUpdate_def castUpdate_def cast_key_def
        SchemaString_cast_def SchemaDate_cast_def sample_lib_def iso_date_def hex24_def
        hexdigit_def lower_hex_def digit_def alice_def bob_def)

theorem updateUser_invalid_or_missing_witness:
  "updateUser sample_lib ''abc''
        \<lparr>req_name = JStr ''Carol'', req_email = JStr ''carol@example.com'',
         req_dateOfBirth = JStr ''1990-01-01''\<rparr> [alice, bob]
      = (\<lparr>status = 400, json = Msg ''Invalid user ID format''\<rparr>, [alice, bob])
   \<and> updateUser sample_lib ''64f74c8e524a1c0012a34569''
        \<lparr>req_name = JStr ''Carol'', req_email = JStr ''carol@example.com'',
         req_dateOfBirth = JStr ''1990-01-01''\<rparr> [alice, bob]
      = (\<lparr>status = 404, json = Msg ''User not found''\<rparr>, [alice, bob])"
proof -
  let ?b = "\<lparr>req_name = JStr ''Carol'', req_email = JStr ''carol@example.com'',
         req_dateOfBirth = JStr ''1990-01-01''\<rparr>"
  have h1: "\<not> isValid sample_lib ''abc''"
    by (simp add: isValid_def sample_lib_def hex24_def)
  have h2: "castObjectId sample_lib ''64f74c8e524a1c0012a34569'' = Some ''64f74c8e524a1c0012a34569''"
    by (simp add: sample_lib_def hex24_def hexdigit_def lower_hex_def)
  have h3: "\<forall>u\<in>set [alice, bob]. oid u \<noteq> ''64f74c8e524a1c0012a34569''"
    by (simp add: alice_def bob_def)
  have h4: "castUpdate sample_lib ?b =
      Inr (Assign (Val ''Carol''), Assign (Val ''carol@example.com''), Assign (Val ''1990-01-01''))"
    by (simp add: castUpdate_def cast_key_def SchemaString_cast_def SchemaDate_cast_def
          sample_lib_def iso_date_def digit_def)
  from updateUser_invalid_or_missing [of sample_lib "''abc''" ?b "[alice, bob]"] h1
    updateUser_invalid_or_missing [of sample_lib "''64f74c8e524a1c0012a34569''" ?b "[alice, bob]"]
    h2 h3 h4
  show ?thesis by blast
qed

text \<open>
  C6, as the code has it. For a well-formed identifier that a stored record has, when the
  library accepts the update and no other record holds the resulting email, the handler
  answers 200 with the updated record, which replaces the old one in the collection
  under the same identifier. A name or an email supplied as a string and a date of birth
  that casts are written to the record; a field that the request does not carry keeps
  its stored value.
\<close>

theorem updateUser_overwrites:
  assumes "distinct (map oid db)"
    and "castObjectId lib ident = Some i" and "u \<in> set db" and "oid u = i"
    and "castUpdate lib b = Inr (n, e, d)"
    and "\<forall>w\<in>set db. oid w \<noteq> i \<longrightarrow> email w \<noteq> assigned e (email u)"
  shows "updateUser lib ident b db =
           (\<lparr>status = 200, json = MsgUser ''User updated successfully'' (apply_update n e d u)\<rparr>,
            update_first (\<lambda>w. oid w = i) (apply_update n e d u) db)
     \<and> apply_update n e d u \<in> set (snd (updateUser lib ident b db))
     \<and> oid (apply_update n e d u) = oid u
     \<and> (\<forall>s. req_name b = JStr s \<longrightarrow> name (apply_update n e d u) = s)
     \<and> (\<forall>s. req_email b = JStr s \<longrightarrow> email (apply_update n e d u) = s)
     \<and> (\<forall>t. req_dateOfBirth b \<noteq> JUndefined \<and> SchemaDate_cast lib (req_dateOfBirth b) = Val t
            \<longrightarrow> dateOfBirth (apply_update n e d u) = t)
     \<and> (req_name b = JUndefined \<longrightarrow> name (apply_update n e d u) = name u)
     \<and> (req_email b = JUndefined \<longrightarrow> email (apply_update n e d u) = email u)
     \<and> (req_dateOfBirth b = JUndefined \<longrightarrow> dateOfBirth (apply_update n e d u) = dateOfBirth u)"
proof -
  let ?u' = "apply_update n e d u"
  have f: "find (\<lambda>w. oid w = i) db = Some u"
    using find_oid_Some [OF assms(1,3)] assms(4) by simp
  have em: "email ?u' = assigned e (email u)" by (simp add: apply_update_def)
  have nodup: "\<not> list_ex (\<lambda>w. oid w \<noteq> i \<and> email w = email ?u') db"
    using assms(6) by (auto simp: list_ex_iff em)
  have fu: "findByIdAndUpdate Connected lib ident b db =
      Inr (Some ?u', update_first (\<lambda>w. oid w = i) ?u' db)"
    using assms(2,5) f nodup by (simp add: findByIdAndUpdate_def Let_def)
  have r: "updateUser lib ident b db =
           (\<lparr>status = 200, json = MsgUser ''User updated successfully'' ?u'\<rparr>,
            update_first (\<lambda>w. oid w = i) ?u' db)"
    using fu assms(2) by (simp add: updateUser_on_def isValid_def)
  have m: "?u' \<in> set (snd (updateUser lib ident b db))"
    unfolding r snd_conv using assms(3,4) by (intro update_first_mem) auto
  note c = castUpdate_Inr [OF assms(5)]
  have n1: "\<forall>s. req_name b = JStr s \<longrightarrow> name ?u' = s"
    using c by (auto simp: apply_update_def cast_key_def SchemaString_cast_def)
  have e1: "\<forall>s. req_email b = JStr s \<longrightarrow> email ?u' = s"
    using c by (auto simp: apply_update_def cast_key_def SchemaString_cast_def)
  have d1: "\<forall>t. req_dateOfBirth b \<noteq> JUndefined \<and> SchemaDate_cast lib (req_dateOfBirth b) = Val t
            \<longrightarrow> dateOfBirth ?u' = t"
    using c by (auto simp: apply_update_def cast_key_def split: jsval.splits)
  have n2: "req_name b = JUndefined \<longrightarrow> name ?u' = name u"
    using c by (auto simp: apply_update_def cast_key_def)
  have e2: "req_email b = JUndefined \<longrightarrow> email ?u' = email u"
    using c by (auto simp: apply_update_def cast_key_def)
  have d2: "req_dateOfBirth b = JUndefined \<longrightarrow> dateOfBirth ?u' = dateOfBirth u"
    using c by (auto simp: apply_update_def cast_key_def)
  have o: "oid ?u' = oid u" by (simp add: apply_update_def)
  from r m o n1 e1 d1 n2 e2 d2 show ?thesis by blast
qed

text \<open>
  The update is refused with status 500 when its email is that of another record, and a
  field absent from the request is not overwritten.
\<close>

theorem updateUser_overwrites_counterexample:
  "isValid sample_lib ''64f74c8e524a1c0012a34568''
   \<and> castObjectId sample_lib ''64f74c8e524a1c0012a34568'' = Some (oid bob)
   \<and> updateUser sample_lib ''64f74c8e524a1c0012a34568''
        \<lparr>req_name = JStr ''Bob'', req_email = JStr ''alice@example.com'',
         req_dateOfBirth = JStr ''1992-05-15''\<rparr> [alice, bob]
      = (\<lparr>status = 500, json = MsgError ''Error updating user'' DuplicateKey\<rparr>, [alice, bob])
   \<and> updateUser sample_lib ''64f74c8e524a1c0012a34568''
        \<lparr>req_name = JStr ''Robert'', req_email = JUndefined,
         req_dateOfBirth = JUndefined\<rparr> [alice, bob]
      = (\<lparr>status = 200, json = MsgUser ''User updated successfully'' (bob\<lparr>name := ''Robert''\<rparr>)\<rparr>,
         [alice, bob\<lparr>name := ''Robert''\<rparr>])"
  by (simp add: updateUser_on_def isValid_def findByIdAndUpdate_def castUpdate_def cast_key_def
        SchemaString_cast_def SchemaDate_cast_def sample_lib_def iso_date_def hex24_def
        hexdigit_def lower_hex_def digit_def alice_def bob_def apply_update_def Let_def)

theorem updateUser_overwrites_witness:
  "updateUser sample_lib ''64f74c8e524a1c0012a34568''
        \<lparr>req_name = JStr ''Robert'', req_email = JStr ''robert@example.com'',
         req_dateOfBirth = JStr ''1992-05-16''\<rparr> [alice, bob]
      = (\<lparr>status = 200,
          json = MsgUser ''User updated successfully''
            \<lparr>oid = ''64f74c8e524a1c0012a34568'', name = ''Robert'',
             email = ''robert@example.com'', dateOfBirth = ''1992-05-16''\<rparr>\<rparr>,
         [alice, \<lparr>oid = ''64f74c8e524a1c0012a34568'', name = ''Robert'',
             email = ''robert@example.com'', dateOfBirth = ''1992-05-16''\<rparr>])"
proof -
  let ?b = "\<lparr>req_name = JStr ''Robert'', req_email = JStr ''robert@example.com'',
         req_dateOfBirth = JStr ''1992-05-16''\<rparr>"
  let ?n = "Assign (Val ''Robert'')"
  let ?e = "Assign (Val ''robert@example.com'')"
  let ?d = "Assign (Val ''1992-05-16'')"
  have h1: "distinct (map oid [alice, bob])" by (simp add: alice_def bob_def)
  have h2: "castObjectId sample_lib ''64f74c8e524a1c0012a34568'' = Some ''64f74c8e524a1c0012a34568''"
    by (simp add: sample_lib_def hex24_def hexdigit_def lower_hex_def)
  have h3: "bob \<in> set [alice, bob]" by simp
  have h4: "oid bob = ''64f74c8e524a1c0012a34568''" by (simp add: bob_def)
  have h5: "castUpdate sample_lib ?b = Inr (?n, ?e, ?d)"
    by (simp add: castUpdate_def cast_key_def SchemaString_cast_def SchemaDate_cast_def
          sample_lib_def iso_date_def digit_def)
  have h6: "\<forall>w\<in>set [alice, bob]. oid w \<noteq> ''64f74c8e524a1c0012a34568''
       \<longrightarrow> email w \<noteq> assigned ?e (email bob)"
    by (simp add: alice_def bob_def)
  from updateUser_overwrites [OF h1 h2 h3 h4 h5 h6]
  have "updateUser sample_lib ''64f74c8e524a1c0012a34568'' ?b [alice, bob] =
           (\<lparr>status = 200, json = MsgUser ''User updated successfully'' (apply_update ?n ?e ?d bob)\<rparr>,
            update_first (\<lambda>w. oid w = ''64f74c8e524a1c0012a34568'') (apply_update ?n ?e ?d bob) [alice, bob])"
    by blast
  then show ?thesis by (simp add: apply_update_def alice_def bob_def)
qed

text \<open>
  C9. An update request, whatever it supplies and whatever the handler answers, leaves
  the identifiers of the collection as they are, record by record, and the record it
  returns carries the identifier of the request. Over any sequence of requests the
  identifiers of the collection are those it had, in their order and without the
  deleted ones, followed by identifiers that create requests brought: no stored record
  is ever given another identifier.
\<close>

theorem oid_never_reassigned:
  "map oid (snd (updateUser lib ident b db)) = map oid db
   \<and> (\<forall>m u. json (fst (updateUser lib ident b db)) = MsgUser m u \<longrightarrow>
         castObjectId lib ident = Some (oid u))
   \<and> subseq (map oid (snd (serve lib rqs db))) (map oid db @ created rqs)"
proof -
  have "\<forall>m u. json (fst (updateUser lib ident b db)) = MsgUser m u \<longrightarrow>
         castObjectId lib ident = Some (oid u)"
    using updateUser_outcome [of lib ident b db] by auto
  then show ?thesis by (simp add: updateUser_oids serve_oids)
qed

theorem oid_never_reassigned_witness:
  "json (fst (updateUser sample_lib ''64F74C8E524A1C0012A34568''
        \<lparr>req_name = JStr ''Robert'', req_email = JUndefined, req_dateOfBirth = JUndefined\<rparr>
        [alice, bob]))
     = MsgUser ''User updated successfully'' (bob\<lparr>name := ''Robert''\<rparr>)
   \<and> castObjectId sample_lib ''64F74C8E524A1C0012A34568'' = Some (oid (bob\<lparr>name := ''Robert''\<rparr>))
   \<and> map oid (snd (updateUser sample_lib ''64F74C8E524A1C0012A34568''
        \<lparr>req_name = JStr ''Robert'', req_email = JUndefined, req_dateOfBirth = JUndefined\<rparr>
        [alice, bob])) = map oid [alice, bob]"
proof -
  let ?b = "\<lparr>req_name = JStr ''Robert'', req_email = JUndefined, req_dateOfBirth = JUndefined\<rparr>"
  have h: "json (fst (updateUser sample_lib ''64F74C8E524A1C0012A34568'' ?b [alice, bob]))
     = MsgUser ''User updated successfully'' (bob\<lparr>name := ''Robert''\<rparr>)"
    by (simp add: updateUser_on_def isValid_def findByIdAndUpdate_def castUpdate_def cast_key_def
        SchemaString_cast_def SchemaDate_cast_def sample_lib_def hex24_def
        hexdigit_def lower_hex_def alice_def bob_def apply_update_def Let_def)
  from oid_never_reassigned [of sample_lib "''64F74C8E524A1C0012A34568''" ?b "[alice, bob]" "[]"] h
  show ?thesis by blast
qed

section \<open>Deleting a user\<close>

text \<open>
  C4, as the code has it. For a well-formed identifier: when no stored record has it the
  handler answers 404 and the collection is unchanged; when a record has it the handler
  answers 200 with that record, removes it, and \<^verbatim>\<open>GET /users\<close> no longer returns it
  nor any record with that identifier.
\<close>

theorem deleteUser_wellformed:
  assumes "castObjectId lib ident = Some i" and "distinct (map oid db)"
  shows "((\<forall>u\<in>set db. oid u \<noteq> i) \<longrightarrow>
            deleteUser lib ident db = (\<lparr>status = 404, json = Msg ''User not found''\<rparr>, db))
     \<and> (\<forall>u\<in>set db. oid u = i \<longrightarrow>
            deleteUser lib ident db =
              (\<lparr>status = 200, json = MsgUser ''User deleted successfully'' u\<rparr>, remove1 u db)
            \<and> fst (getUsers (snd (deleteUser lib ident db)))
                = \<lparr>status = 200, json = Users (remove1 u db)\<rparr>
            \<and> u \<notin> set (remove1 u db)
            \<and> (\<forall>w\<in>set (remove1 u db). oid w \<noteq> i))"
proof -
  have a: "deleteUser lib ident db = (\<lparr>status = 404, json = Msg ''User not found''\<rparr>, db)"
    if "\<forall>u\<in>set db. oid u \<noteq> i"
    using that assms(1) by (simp add: deleteUser_on_def findByIdAndDelete_def find_oid_None [symmetric])
  have b: "deleteUser lib ident db =
              (\<lparr>status = 200, json = MsgUser ''User deleted successfully'' u\<rparr>, remove1 u db)
            \<and> fst (getUsers (snd (deleteUser lib ident db)))
                = \<lparr>status = 200, json = Users (remove1 u db)\<rparr>
            \<and> u \<notin> set (remove1 u db)
            \<and> (\<forall>w\<in>set (remove1 u db). oid w \<noteq> i)"
    if "u \<in> set db" and "oid u = i" for u
  proof -
    have f: "find (\<lambda>w. oid w = i) db = Some u"
      using find_oid_Some [OF assms(2) that(1)] that(2) by simp
    have d: "distinct db" using assms(2) by (simp add: distinct_map)
    have r: "deleteUser lib ident db =
              (\<lparr>status = 200, json = MsgUser ''User deleted successfully'' u\<rparr>, remove1 u db)"
      using assms(1) f by (simp add: deleteUser_on_def findByIdAndDelete_def)
    have n: "u \<notin> set (remove1 u db)" using d by simp
    have m: "\<forall>w\<in>set (remove1 u db). oid w \<noteq> i"
    proof
      fix w assume w: "w \<in> set (remove1 u db)"
      then have "w \<in> set db" "w \<noteq> u" using d by auto
      moreover have "inj_on oid (set db)" using assms(2) by (simp add: distinct_map)
      ultimately show "oid w \<noteq> i" using that by (auto dest: inj_onD)
    qed
    from r n m show ?thesis by (simp add: getUsers_on_def find_all_def)
  qed
  from a b show ?thesis by blast
qed

text \<open>
  An identifier that is not well-formed matches no record, and the handler answers 500:
  the delete route has no check of the identifier, and the lookup throws.
\<close>

theorem deleteUser_wellformed_counterexample:
  "\<not> isValid sample_lib ''abc''
   \<and> ''abc'' \<notin> oid ` set [alice, bob]
   \<and> deleteUser sample_lib ''abc'' [alice, bob]
      = (\<lparr>status = 500, json = MsgError ''Error deleting user'' CastError\<rparr>, [alice, bob])"
  by (simp add: deleteUser_on_def findByIdAndDelete_def isValid_def sample_lib_def hex24_def
        alice_def bob_def)

theorem deleteUser_wellformed_witness:
  "deleteUser sample_lib ''64f74c8e524a1c0012a34569'' [alice, bob]
      = (\<lparr>status = 404, json = Msg ''User not found''\<rparr>, [alice, bob])
   \<and> deleteUser sample_lib ''64f74c8e524a1c0012a34567'' [alice, bob]
      = (\<lparr>status = 200, json = MsgUser ''User deleted successfully'' alice\<rparr>, [bob])
   \<and> fst (getUsers (snd (deleteUser sample_lib ''64f74c8e524a1c0012a34567'' [alice, bob])))
      = \<lparr>status = 200, json = Users [bob]\<rparr>"
proof -
  have h1: "castObjectId sample_lib ''64f74c8e524a1c0012a34569'' = Some ''64f74c8e524a1c0012a34569''"
    by (simp add: sample_lib_def hex24_def hexdigit_def lower_hex_def)
  have h2: "castObjectId sample_lib ''64f74c8e524a1c0012a34567'' = Some ''64f74c8e524a1c0012a34567''"
    by (simp add: sample_lib_def hex24_def hexdigit_def lower_hex_def)
  have d: "distinct (map oid [alice, bob])" by (simp add: alice_def bob_def)
  have h3: "\<forall>u\<in>set [alice, bob]. oid u \<noteq> ''64f74c8e524a1c0012a34569''"
    by (simp add: alice_def bob_def)
  have h4: "alice \<in> set [alice, bob]" "oid alice = ''64f74c8e524a1c0012a34567''"
    by (simp_all add: alice_def)
  have r: "remove1 alice [alice, bob] = [bob]" by simp
  from deleteUser_wellformed [OF h1 d] h3
  have "deleteUser sample_lib ''64f74c8e524a1c0012a34569'' [alice, bob]
      = (\<lparr>status = 404, json = Msg ''User not found''\<rparr>, [alice, bob])" by blast
  moreover from deleteUser_wellformed [OF h2 d] h4
  have "deleteUser sample_lib ''64f74c8e524a1c0012a34567'' [alice, bob] =
              (\<lparr>status = 200, json = MsgUser ''User deleted successfully'' alice\<rparr>,
               remove1 alice [alice, bob])
            \<and> fst (getUsers (snd (deleteUser sample_lib ''64f74c8e524a1c0012a34567'' [alice, bob])))
                = \<lparr>status = 200, json = Users (remove1 alice [alice, bob])\<rparr>" by blast
  ultimately show ?thesis unfolding r by blast
qed

section \<open>Listing the users\<close>




section \<open>Status codes\<close>




end
